theory Spec2Isabelle
  imports Complex_Main "HOL-Library.AList"
begin

section \<open>JavaScript values and the objects of the product catalogue\<close>

text \<open>
  The controller (controllers/product.controller.js) works on JSON-like values: request
  bodies, stored product documents and response envelopes. They are modelled by one
  datatype. Numbers are mathematical integers (page numbers, counts and the zeroed
  aggregates are the only numbers the controller computes with). An object is an
  association list from property names to values, in insertion order.
\<close>

datatype jsval =
    JUndefined
  | JNull
  | JBool bool
  | JNum int
  | JStr string
  | JArr "jsval list"
  | JObj "(string \<times> jsval) list"

type_synonym doc = "(string \<times> jsval) list"

text \<open>The errors that reach a \<open>catch\<close> block.\<close>

datatype js_error =
    TypeError string
  | SyntaxError string
  | URIError string
  | MongoError string
  | CollaboratorError string
  | NotModelled string

text \<open>\<open>o[k]\<close>, \<open>o[k] = v\<close> and \<open>delete o[k]\<close> on an object.\<close>

definition js_get :: "doc \<Rightarrow> string \<Rightarrow> jsval" where
  "js_get d k = (case map_of d k of None \<Rightarrow> JUndefined | Some v \<Rightarrow> v)"

definition js_set :: "doc \<Rightarrow> string \<Rightarrow> jsval \<Rightarrow> doc" where
  "js_set d k v = AList.update k v d"

definition js_delete :: "doc \<Rightarrow> string \<Rightarrow> doc" where
  "js_delete d k = AList.delete k d"

text \<open>
  \<open>v.k\<close> on an arbitrary value, for a property name \<open>k\<close> that is neither \<open>length\<close>
  nor an array index: reading a property of \<open>undefined\<close> or \<open>null\<close> throws, an object
  answers with its property, every other value has no such property.
\<close>

fun js_field :: "jsval \<Rightarrow> string \<Rightarrow> js_error + jsval" where
  "js_field JUndefined k = Inl (TypeError ''Cannot read properties of undefined'')"
| "js_field JNull k = Inl (TypeError ''Cannot read properties of null'')"
| "js_field (JObj d) k = Inr (js_get d k)"
| "js_field v k = Inr JUndefined"

text \<open>\<open>v.length\<close> for a value that is neither \<open>undefined\<close> nor \<open>null\<close>.\<close>

fun js_length :: "jsval \<Rightarrow> jsval" where
  "js_length (JArr xs) = JNum (int (length xs))"
| "js_length (JStr s) = JNum (int (length s))"
| "js_length (JObj d) = js_get d ''length''"
| "js_length v = JUndefined"

text \<open>Truthiness, as \<open>if (v)\<close>, \<open>!v\<close> and \<open>a && b\<close> test it.\<close>

fun truthy :: "jsval \<Rightarrow> bool" where
  "truthy JUndefined = False"
| "truthy JNull = False"
| "truthy (JBool b) = b"
| "truthy (JNum n) = (n \<noteq> 0)"
| "truthy (JStr s) = (s \<noteq> [])"
| "truthy (JArr xs) = True"
| "truthy (JObj d) = True"

section \<open>The collaborators\<close>

text \<open>
  Everything the controller calls but does not define is a parameter of the model, so
  that each theorem holds for every behaviour of the collaborators:
  \<^item> the media utilities of utils/imageUpload.util, over a media state \<open>'m\<close>; each
    returns a promise, which is either fulfilled (\<open>Inr\<close>) or rejected (\<open>Inl\<close>);
  \<^item> \<open>new RegExp(p, 'i')\<close>, which throws on an invalid pattern and otherwise yields the
    test a string passes when the pattern matches it;
  \<^item> the text index behind \<open>$text\<close>, the order \<open>sort\<close> establishes, the identifiers,
    timestamps and SKUs the Product model assigns;
  \<^item> the coercions of ECMAScript the model does not compute: \<open>ToString\<close> of a value
    that is not a string, and the comparison \<open>v > 0\<close> for a string or an object.
\<close>

record 'm env =
  deleteMultipleImages :: "jsval list \<Rightarrow> 'm \<Rightarrow> (js_error + jsval) \<times> 'm"
  deleteCloudinaryImage :: "jsval \<Rightarrow> 'm \<Rightarrow> (js_error + jsval) \<times> 'm"
  uploadProductImages :: "jsval list \<Rightarrow> 'm \<Rightarrow> (js_error + jsval) \<times> 'm"
  uploadSizeChartImage :: "jsval \<Rightarrow> 'm \<Rightarrow> (js_error + jsval) \<times> 'm"
  regExp_i :: "string \<Rightarrow> js_error + (string \<Rightarrow> bool)"
  textSearch :: "string \<Rightarrow> doc \<Rightarrow> bool"
  sortsBefore :: "string \<Rightarrow> doc \<Rightarrow> doc \<Rightarrow> bool"
  newObjectId :: "doc list \<Rightarrow> jsval"
  timestamp :: "doc list \<Rightarrow> jsval"
  generateSku :: "doc \<Rightarrow> doc list \<Rightarrow> jsval"
  toStringOf :: "jsval \<Rightarrow> string"
  coercedPositive :: "jsval \<Rightarrow> bool"
  decodeURIComponent :: "string \<Rightarrow> js_error + string"

text \<open>
  The state the requests act on: the two collections of the document store, the state of
  the media service, and what has been written with \<open>console.error\<close>.
\<close>

record 'm world =
  products :: "doc list"
  shippingStructures :: "doc list"
  media :: 'm
  console :: "(string \<times> js_error) list"

text \<open>
  What a handler does with the request: it sends a response (\<open>res.status(c).json(b)\<close>)
  or hands an error to the generic error handler (\<open>next(error)\<close>).
\<close>

datatype outcome = Response nat jsval | Next js_error

section \<open>The Product model\<close>

text \<open>
  Modelled from the spec: models/Product.model.js and the document store behind it are
  not among the sources. The store "persists product records"; a record is found by its
  \<open>_id\<close>; \<open>save\<close> writes the document back in place of the stored one with the same
  \<open>_id\<close>; \<open>create\<close> "persists and returns the created record with assigned
  id/timestamps/sku", the SKU being generated "if absent". Store operations complete:
  a lost connection or a rejected validation is not modelled.
\<close>

definition findById :: "string \<Rightarrow> doc list \<Rightarrow> doc option" where
  "findById pid ds = find (\<lambda>d. js_get d ''_id'' = JStr pid) ds"

definition save :: "doc \<Rightarrow> 'm world \<Rightarrow> 'm world" where
  "save product w =
     w\<lparr>products := map (\<lambda>d. if js_get d ''_id'' = js_get product ''_id'' then product else d)
                        (products w)\<rparr>"

definition assignSku :: "'m env \<Rightarrow> doc list \<Rightarrow> doc \<Rightarrow> doc" where
  "assignSku env ds d =
     (if js_get d ''sku'' = JUndefined \<or> js_get d ''sku'' = JNull
      then js_set d ''sku'' (generateSku env d ds) else d)"

definition newDocument :: "'m env \<Rightarrow> doc list \<Rightarrow> doc \<Rightarrow> doc" where
  "newDocument env ds d =
     js_set (js_set (js_set (js_set (assignSku env ds d)
       ''_id'' (newObjectId env ds))
       ''__v'' (JNum 0))
       ''createdAt'' (timestamp env ds))
       ''updatedAt'' (timestamp env ds)"

definition create :: "'m env \<Rightarrow> doc \<Rightarrow> 'm world \<Rightarrow> doc \<times> 'm world" where
  "create env d w =
     (let created = newDocument env (products w) d
      in (created, w\<lparr>products := products w @ [created]\<rparr>))"

section \<open>deleteProduct\<close>

text \<open>\<open>v > 0\<close>: exact on numbers, booleans, \<open>null\<close> and \<open>undefined\<close>.\<close>

fun js_gt0 :: "'m env \<Rightarrow> jsval \<Rightarrow> bool" where
  "js_gt0 env JUndefined = False"
| "js_gt0 env JNull = False"
| "js_gt0 env (JBool b) = b"
| "js_gt0 env (JNum n) = (0 < n)"
| "js_gt0 env v = coercedPositive env v"

text \<open>
  \<open>images.map(img => img.publicId)\<close>: only an array has \<open>map\<close>; the callback throws
  at the first element that is \<open>null\<close> or \<open>undefined\<close>.
\<close>

fun publicIdsOf :: "jsval list \<Rightarrow> js_error + jsval list" where
  "publicIdsOf [] = Inr []"
| "publicIdsOf (img # imgs) =
     (case js_field img ''publicId'' of
        Inl e \<Rightarrow> Inl e
      | Inr p \<Rightarrow> (case publicIdsOf imgs of Inl e \<Rightarrow> Inl e | Inr ps \<Rightarrow> Inr (p # ps)))"

fun mapPublicId :: "jsval \<Rightarrow> js_error + jsval list" where
  "mapPublicId (JArr imgs) = publicIdsOf imgs"
| "mapPublicId v = Inl (TypeError ''product.images.map is not a function'')"

text \<open>
  The first cleanup block of \<open>deleteProduct\<close>. A rejection of
  \<open>deleteMultipleImages\<close> is handled by the \<open>.catch\<close> on that call: it is written to
  the console and the block completes.
\<close>

definition cleanupImages :: "'m env \<Rightarrow> doc \<Rightarrow> 'm world \<Rightarrow> js_error + 'm world" where
  "cleanupImages env product w =
     (let images = js_get product ''images'' in
      if truthy images \<and> js_gt0 env (js_length images) then
        (case mapPublicId images of
           Inl e \<Rightarrow> Inl e
         | Inr publicIds \<Rightarrow>
             (case deleteMultipleImages env publicIds (media w) of
                (Inl err, m) \<Rightarrow>
                  Inr (w\<lparr>media := m,
                          console := console w @ [(''Error deleting product images:'', err)]\<rparr>)
              | (Inr r, m) \<Rightarrow> Inr (w\<lparr>media := m\<rparr>)))
      else Inr w)"

text \<open>The second cleanup block, with a \<open>.catch\<close> of its own.\<close>

definition cleanupSizeChart :: "'m env \<Rightarrow> doc \<Rightarrow> 'm world \<Rightarrow> js_error + 'm world" where
  "cleanupSizeChart env product w =
     (let sizeChart = js_get product ''sizeChart'' in
      if truthy sizeChart then
        (case js_field sizeChart ''imagePublicId'' of
           Inl e \<Rightarrow> Inl e
         | Inr imagePublicId \<Rightarrow>
             if truthy imagePublicId then
               (case deleteCloudinaryImage env imagePublicId (media w) of
                  (Inl err, m) \<Rightarrow>
                    Inr (w\<lparr>media := m,
                            console := console w @ [(''Error deleting size chart image:'', err)]\<rparr>)
                | (Inr r, m) \<Rightarrow> Inr (w\<lparr>media := m\<rparr>))
             else Inr w)
      else Inr w)"

definition notFound :: jsval where
  "notFound = JObj [(''success'', JBool False), (''message'', JStr ''Product not found'')]"

definition deleteProduct :: "'m env \<Rightarrow> string \<Rightarrow> 'm world \<Rightarrow> outcome \<times> 'm world" where
  "deleteProduct env pid w =
     (case findById pid (products w) of
        None \<Rightarrow> (Response 404 notFound, w)
      | Some product \<Rightarrow>
          (case cleanupImages env product w of
             Inl e \<Rightarrow> (Next e, w)
           | Inr w1 \<Rightarrow>
               (case cleanupSizeChart env product w1 of
                  Inl e \<Rightarrow> (Next e, w1)
                | Inr w2 \<Rightarrow>
                    (Response 200
                       (JObj [(''success'', JBool True),
                              (''message'', JStr ''Product deleted successfully'')]),
                     save (js_set product ''isActive'' (JBool False)) w2))))"

section \<open>Queries on the product collection\<close>

text \<open>
  The filter documents the controller builds. A field condition compares a scalar field
  of the data model: \<open>{k: v}\<close> holds when the field equals \<open>v\<close>, \<open>{k: /re/}\<close> when the
  field is a string the expression matches, \<open>$text\<close> when the text index says so, and
  \<open>$or\<close> when one of its conditions holds. A filter is the conjunction of its entries.
\<close>

datatype condition =
    FieldEquals string jsval
  | FieldMatches string "string \<Rightarrow> bool"
  | TextSearch string
  | AnyOf "condition list"

fun holds :: "'m env \<Rightarrow> doc \<Rightarrow> condition \<Rightarrow> bool" where
  "holds env d (FieldEquals k v) = (js_get d k = v)"
| "holds env d (FieldMatches k m) = (case js_get d k of JStr s \<Rightarrow> m s | _ \<Rightarrow> False)"
| "holds env d (TextSearch s) = textSearch env s d"
| "holds env d (AnyOf cs) = list_ex (holds env d) cs"

definition matching :: "'m env \<Rightarrow> condition list \<Rightarrow> doc list \<Rightarrow> doc list" where
  "matching env query ds = filter (\<lambda>d. list_all (holds env d) query) ds"

definition countDocuments :: "'m env \<Rightarrow> condition list \<Rightarrow> doc list \<Rightarrow> nat" where
  "countDocuments env query ds = length (matching env query ds)"

text \<open>\<open>sort(key)\<close>: insertion into the order the store establishes for the key.\<close>

fun insertSorted :: "(doc \<Rightarrow> doc \<Rightarrow> bool) \<Rightarrow> doc \<Rightarrow> doc list \<Rightarrow> doc list" where
  "insertSorted le d [] = [d]"
| "insertSorted le d (x # xs) = (if le d x then d # x # xs else x # insertSorted le d xs)"

definition sortDocs :: "(doc \<Rightarrow> doc \<Rightarrow> bool) \<Rightarrow> doc list \<Rightarrow> doc list" where
  "sortDocs le ds = foldr (insertSorted le) ds []"

text \<open>\<open>limit(n)\<close>: a limit of 0 is no limit.\<close>

definition limitDocs :: "nat \<Rightarrow> doc list \<Rightarrow> doc list" where
  "limitDocs n ds = (if n = 0 then ds else take n ds)"

text \<open>
  \<open>populate('shippingStructure', 'name rules isDefault')\<close>: the reference is replaced
  by the selected fields of the shipping structure it names, or by \<open>null\<close> when there
  is none; no other field of the product is touched.
\<close>

definition selectFields :: "string list \<Rightarrow> doc \<Rightarrow> doc" where
  "selectFields ks d = filter (\<lambda>kv. fst kv \<in> set ks) d"

definition populate :: "doc list \<Rightarrow> doc \<Rightarrow> doc" where
  "populate structures d =
     (let ref = js_get d ''shippingStructure'' in
      if ref = JUndefined \<or> ref = JNull then d
      else js_set d ''shippingStructure''
             (case find (\<lambda>s. js_get s ''_id'' = ref) structures of
                None \<Rightarrow> JNull
              | Some s \<Rightarrow> JObj (selectFields [''_id'', ''name'', ''rules'', ''isDefault''] s)))"

section \<open>getAllProducts\<close>

text \<open>
  The query string of \<open>GET /api/products\<close>. \<open>page\<close> and \<open>limit\<close> stand for the
  non-negative integer their text denotes (\<open>None\<close>: the parameter is absent and the
  default applies); the other parameters are strings. The response echoes \<open>page\<close> as
  \<open>currentPage\<close>: the model gives the number.
\<close>

record listQuery =
  qPage :: "nat option"
  qLimit :: "nat option"
  qSearch :: "string option"
  qCategory :: "string option"
  qBrand :: "string option"
  qSortBy :: "string option"

definition orDefault :: "'a option \<Rightarrow> 'a \<Rightarrow> 'a" where
  "orDefault v d = (case v of None \<Rightarrow> d | Some x \<Rightarrow> x)"

definition given :: "string option \<Rightarrow> bool" where
  "given v = (case v of None \<Rightarrow> False | Some s \<Rightarrow> s \<noteq> [])"

text \<open>
  \<open>Math.ceil(count / limit)\<close>. The quotient by 0 is \<open>Infinity\<close> or \<open>NaN\<close>, which
  \<open>res.json\<close> writes as \<open>null\<close>.
\<close>

definition mathCeilDiv :: "nat \<Rightarrow> nat \<Rightarrow> jsval" where
  "mathCeilDiv count limit =
     (if limit = 0 then JNull else JNum \<lceil>(of_nat count :: rat) / of_nat limit\<rceil>)"

text \<open>The filter of \<open>getAllProducts\<close>; \<open>new RegExp(brand, 'i')\<close> may throw.\<close>

definition listFilter :: "'m env \<Rightarrow> listQuery \<Rightarrow> js_error + condition list" where
  "listFilter env q =
     (let query = [FieldEquals ''isActive'' (JBool True)];
          query = (if given (qSearch q) then query @ [TextSearch (the (qSearch q))] else query);
          query = (if given (qCategory q)
                   then query @ [FieldEquals ''category'' (JStr (the (qCategory q)))]
                   else query)
      in if given (qBrand q) then
           (case regExp_i env (the (qBrand q)) of
              Inl e \<Rightarrow> Inl e
            | Inr m \<Rightarrow> Inr (query @ [FieldMatches ''brand'' m]))
         else Inr query)"

text \<open>
  The page: the store sorts, skips and then limits, whatever the order of the calls; a
  negative skip is refused by the store.
\<close>

definition findPage ::
  "'m env \<Rightarrow> condition list \<Rightarrow> string \<Rightarrow> nat \<Rightarrow> int \<Rightarrow> 'm world \<Rightarrow> js_error + doc list" where
  "findPage env query sortBy limit skip w =
     (if skip < 0 then Inl (MongoError ''Skip value must be non-negative'')
      else Inr (map (populate (shippingStructures w))
                  (limitDocs limit
                     (drop (nat skip)
                        (sortDocs (sortsBefore env sortBy)
                           (matching env query (products w)))))))"

definition getAllProducts :: "'m env \<Rightarrow> listQuery \<Rightarrow> 'm world \<Rightarrow> outcome \<times> 'm world" where
  "getAllProducts env q w =
     (let page = orDefault (qPage q) 1;
          limit = orDefault (qLimit q) 10;
          sortBy = orDefault (qSortBy q) ''-createdAt''
      in case listFilter env q of
           Inl e \<Rightarrow> (Next e, w)
         | Inr query \<Rightarrow>
             (case findPage env query sortBy limit ((int page - 1) * int limit) w of
                Inl e \<Rightarrow> (Next e, w)
              | Inr found \<Rightarrow>
                  (let count = countDocuments env query (products w)
                   in (Response 200
                         (JObj [(''success'', JBool True),
                                (''count'', JNum (int (length found))),
                                (''total'', JNum (int count)),
                                (''totalPages'', mathCeilDiv count limit),
                                (''currentPage'', JNum (int page)),
                                (''data'', JObj [(''products'', JArr (map JObj found))])]),
                       w))))"

section \<open>getProduct, createProduct, updateProduct\<close>

definition getProduct :: "'m env \<Rightarrow> string \<Rightarrow> 'm world \<Rightarrow> outcome \<times> 'm world" where
  "getProduct env pid w =
     (case findById pid (products w) of
        None \<Rightarrow> (Response 404 notFound, w)
      | Some d \<Rightarrow>
          (Response 200
             (JObj [(''success'', JBool True),
                    (''data'', JObj [(''product'', JObj (populate (shippingStructures w) d))])]),
           w))"

definition createProduct :: "'m env \<Rightarrow> doc \<Rightarrow> 'm world \<Rightarrow> outcome \<times> 'm world" where
  "createProduct env body w =
     (case create env body w of
        (product, w') \<Rightarrow>
          (Response 201
             (JObj [(''success'', JBool True),
                    (''message'', JStr ''Product created successfully''),
                    (''data'', JObj [(''product'', JObj product)])]),
           w'))"

definition immutableFields :: "string list" where
  "immutableFields = [''_id'', ''__v'', ''createdAt'', ''updatedAt'']"

text \<open>
  \<open>Object.keys(req.body).forEach(key => ...)\<close>: the keys in order, each assignment made
  on the document the previous ones have left.
\<close>

definition assignKey :: "doc \<Rightarrow> string \<Rightarrow> doc \<Rightarrow> doc" where
  "assignKey body key product =
     (if key \<notin> set immutableFields then js_set product key (js_get body key) else product)"

definition assignBody :: "doc \<Rightarrow> doc \<Rightarrow> doc" where
  "assignBody body product = fold (assignKey body) (map fst body) product"

definition updateProduct :: "'m env \<Rightarrow> string \<Rightarrow> doc \<Rightarrow> 'm world \<Rightarrow> outcome \<times> 'm world" where
  "updateProduct env pid body w =
     (case findById pid (products w) of
        None \<Rightarrow> (Response 404 notFound, w)
      | Some product \<Rightarrow>
          (let product' = assignBody body product
           in (Response 200
                 (JObj [(''success'', JBool True),
                        (''message'', JStr ''Product updated successfully''),
                        (''data'', JObj [(''product'', JObj product')])]),
               save product' w)))"

section \<open>searchProducts\<close>

definition searchProducts :: "'m env \<Rightarrow> string option \<Rightarrow> 'm world \<Rightarrow> outcome \<times> 'm world" where
  "searchProducts env q w =
     (if given q then
        (case regExp_i env (the q) of
           Inl e \<Rightarrow> (Next e, w)
         | Inr m \<Rightarrow>
             (let found = limitDocs 20
                            (matching env
                               [AnyOf [FieldMatches ''name'' m,
                                       FieldMatches ''brand'' m,
                                       FieldMatches ''description'' m],
                                FieldEquals ''isActive'' (JBool True)]
                               (products w))
              in (Response 200
                    (JObj [(''success'', JBool True),
                           (''count'', JNum (int (length found))),
                           (''data'', JObj [(''products'', JArr (map JObj found))])]),
                  w)))
      else
        (Response 400
           (JObj [(''success'', JBool False), (''message'', JStr ''Search query is required'')]),
         w))"

section \<open>uploadImages, deleteImage, uploadSizeChart\<close>

text \<open>
  \<open>req.files\<close> is the array the upload middleware leaves, or \<open>undefined\<close>
  (\<open>None\<close>); \<open>req.file\<close> is one file or \<open>undefined\<close>.
\<close>

definition uploadImages :: "'m env \<Rightarrow> jsval list option \<Rightarrow> 'm world \<Rightarrow> outcome \<times> 'm world" where
  "uploadImages env files w =
     (case files of
        None \<Rightarrow>
          (Response 400
             (JObj [(''success'', JBool False), (''message'', JStr ''No images provided'')]), w)
      | Some fs \<Rightarrow>
          if length fs = 0 then
            (Response 400
               (JObj [(''success'', JBool False), (''message'', JStr ''No images provided'')]), w)
          else
            (case uploadProductImages env fs (media w) of
               (Inl e, m) \<Rightarrow> (Next e, w\<lparr>media := m\<rparr>)
             | (Inr uploadedImages, m) \<Rightarrow>
                 (Response 200
                    (JObj [(''success'', JBool True),
                           (''message'', JStr ''Images uploaded successfully''),
                           (''data'', JObj [(''images'', uploadedImages)])]),
                  w\<lparr>media := m\<rparr>)))"

definition deleteImage :: "'m env \<Rightarrow> string \<Rightarrow> 'm world \<Rightarrow> outcome \<times> 'm world" where
  "deleteImage env publicId w =
     (if publicId = [] then
        (Response 400
           (JObj [(''success'', JBool False), (''message'', JStr ''Public ID is required'')]), w)
      else
        (case decodeURIComponent env publicId of
           Inl e \<Rightarrow> (Next e, w)
         | Inr decodedPublicId \<Rightarrow>
             (case deleteCloudinaryImage env (JStr decodedPublicId) (media w) of
                (Inl e, m) \<Rightarrow> (Next e, w\<lparr>media := m\<rparr>)
              | (Inr r, m) \<Rightarrow>
                  (Response 200
                     (JObj [(''success'', JBool True),
                            (''message'', JStr ''Image deleted successfully'')]),
                   w\<lparr>media := m\<rparr>))))"

definition uploadSizeChart :: "'m env \<Rightarrow> jsval option \<Rightarrow> 'm world \<Rightarrow> outcome \<times> 'm world" where
  "uploadSizeChart env file w =
     (case file of
        None \<Rightarrow>
          (Response 400
             (JObj [(''success'', JBool False), (''message'', JStr ''No image provided'')]), w)
      | Some f \<Rightarrow>
          (case uploadSizeChartImage env f (media w) of
             (Inl e, m) \<Rightarrow> (Next e, w\<lparr>media := m\<rparr>)
           | (Inr uploadedImage, m) \<Rightarrow>
               (Response 200
                  (JObj [(''success'', JBool True),
                         (''message'', JStr ''Size chart uploaded successfully''),
                         (''data'', JObj [(''image'', uploadedImage)])]),
                w\<lparr>media := m\<rparr>)))"

section \<open>duplicateProduct\<close>

text \<open>The template literal \<open>`${v} (Copy)`\<close>: a string is taken as it is.\<close>

fun js_toString :: "'m env \<Rightarrow> jsval \<Rightarrow> string" where
  "js_toString env (JStr s) = s"
| "js_toString env JUndefined = ''undefined''"
| "js_toString env JNull = ''null''"
| "js_toString env (JBool b) = (if b then ''true'' else ''false'')"
| "js_toString env v = toStringOf env v"

text \<open>
  The object handed to \<open>Product.create\<close>: \<open>toObject()\<close> is the plain object of the
  document's fields; four keys are deleted and four are set.
\<close>

definition duplicateData :: "'m env \<Rightarrow> doc \<Rightarrow> doc" where
  "duplicateData env originalProduct =
     (let productData = originalProduct;
          productData = js_delete productData ''_id'';
          productData = js_delete productData ''__v'';
          productData = js_delete productData ''createdAt'';
          productData = js_delete productData ''updatedAt'';
          productData = js_set productData ''name''
                          (JStr (js_toString env (js_get productData ''name'') @ '' (Copy)''));
          productData = js_set productData ''sku'' JNull;
          productData = js_set productData ''averageRating'' (JNum 0);
          productData = js_set productData ''reviewCount'' (JNum 0)
      in productData)"

definition duplicateProduct :: "'m env \<Rightarrow> string \<Rightarrow> 'm world \<Rightarrow> outcome \<times> 'm world" where
  "duplicateProduct env pid w =
     (case findById pid (products w) of
        None \<Rightarrow> (Response 404 notFound, w)
      | Some originalProduct \<Rightarrow>
          (case create env (duplicateData env originalProduct) w of
             (duplicatedProduct, w') \<Rightarrow>
               (Response 201
                  (JObj [(''success'', JBool True),
                         (''message'', JStr ''Product duplicated successfully''),
                         (''data'', JObj [(''product'', JObj duplicatedProduct)])]),
                w')))"

section \<open>The routes\<close>

text \<open>
  routes/product.routes.js maps each request to its handler. The middleware in front of
  the handlers (authentication, validation of the identifier, the upload) is not
  modelled: a request below is one that has reached its handler.
\<close>

datatype request =
    GetAllProducts listQuery
  | SearchProducts "string option"
  | GetProduct string
  | CreateProduct doc
  | DuplicateProduct string
  | UpdateProduct string doc
  | DeleteProduct string
  | UploadImages "jsval list option"
  | DeleteImage string
  | UploadSizeChart "jsval option"

fun handle :: "'m env \<Rightarrow> request \<Rightarrow> 'm world \<Rightarrow> outcome \<times> 'm world" where
  "handle env (GetAllProducts q) w = getAllProducts env q w"
| "handle env (SearchProducts q) w = searchProducts env q w"
| "handle env (GetProduct pid) w = getProduct env pid w"
| "handle env (CreateProduct body) w = createProduct env body w"
| "handle env (DuplicateProduct pid) w = duplicateProduct env pid w"
| "handle env (UpdateProduct pid body) w = updateProduct env pid body w"
| "handle env (DeleteProduct pid) w = deleteProduct env pid w"
| "handle env (UploadImages files) w = uploadImages env files w"
| "handle env (DeleteImage publicId) w = deleteImage env publicId w"
| "handle env (UploadSizeChart file) w = uploadSizeChart env file w"

text \<open>
  The status table as the specification words it: "200 (read/update/delete success),
  201 (create/duplicate/upload success)".
\<close>

fun specSuccessStatus :: "request \<Rightarrow> nat" where
  "specSuccessStatus (CreateProduct body) = 201"
| "specSuccessStatus (DuplicateProduct pid) = 201"
| "specSuccessStatus (UploadImages files) = 201"
| "specSuccessStatus (UploadSizeChart file) = 201"
| "specSuccessStatus r = 200"

text \<open>The status each handler sends with \<open>success: true\<close>.\<close>

fun successStatus :: "request \<Rightarrow> nat" where
  "successStatus (CreateProduct body) = 201"
| "successStatus (DuplicateProduct pid) = 201"
| "successStatus r = 200"

text \<open>The \<open>success\<close> flag of a response.\<close>

fun succeeded :: "outcome \<Rightarrow> bool" where
  "succeeded (Response c (JObj body)) = (js_get body ''success'' = JBool True)"
| "succeeded r = False"

fun statusOf :: "outcome \<Rightarrow> nat option" where
  "statusOf (Response c body) = Some c"
| "statusOf (Next e) = None"

text \<open>The products of a response: the entries of \<open>data.products\<close>.\<close>

fun listedProducts :: "outcome \<Rightarrow> jsval list" where
  "listedProducts (Response c (JObj body)) =
     (case js_get body ''data'' of
        JObj data \<Rightarrow> (case js_get data ''products'' of JArr ps \<Rightarrow> ps | _ \<Rightarrow> [])
      | _ \<Rightarrow> [])"
| "listedProducts r = []"

section \<open>A fragment of the regular expressions of ECMAScript\<close>

text \<open>
  \<open>new RegExp(p, 'i')\<close> for the patterns built from literal characters, \<open>.\<close>, groups,
  \<open>|\<close> and the quantifiers \<open>*\<close>, \<open>+\<close>, \<open>?\<close>, over ASCII text. The fragment answers
  \<open>Unsupported\<close> as soon as it meets anything else (a backslash, a bracket, a brace, an
  anchor, a group specifier, a lazy quantifier, a character beyond ASCII): it says
  nothing about such a pattern.
\<close>

datatype rx =
    Empty
  | Never
  | Lit char
  | Dot
  | AnyChar
  | Cat rx rx
  | Alt rx rx
  | Rep rx

text \<open>Canonicalisation under the \<open>i\<close> flag: the upper-case letter.\<close>

definition canonical :: "char \<Rightarrow> char" where
  "canonical c =
     (case map_of (zip ''abcdefghijklmnopqrstuvwxyz'' ''ABCDEFGHIJKLMNOPQRSTUVWXYZ'') c of
        None \<Rightarrow> c
      | Some u \<Rightarrow> u)"

definition lineTerminator :: "char \<Rightarrow> bool" where
  "lineTerminator c = (c = CHR 0x0A \<or> c = CHR 0x0D)"

fun nullable :: "rx \<Rightarrow> bool" where
  "nullable Empty = True"
| "nullable Never = False"
| "nullable (Lit c) = False"
| "nullable Dot = False"
| "nullable AnyChar = False"
| "nullable (Cat r s) = (nullable r \<and> nullable s)"
| "nullable (Alt r s) = (nullable r \<or> nullable s)"
| "nullable (Rep r) = True"

text \<open>What is left of an expression once it has read the character.\<close>

fun after :: "char \<Rightarrow> rx \<Rightarrow> rx" where
  "after c Empty = Never"
| "after c Never = Never"
| "after c (Lit d) = (if canonical c = canonical d then Empty else Never)"
| "after c Dot = (if lineTerminator c then Never else Empty)"
| "after c AnyChar = Empty"
| "after c (Cat r s) =
     (if nullable r then Alt (Cat (after c r) s) (after c s) else Cat (after c r) s)"
| "after c (Alt r s) = Alt (after c r) (after c s)"
| "after c (Rep r) = Cat (after c r) (Rep r)"

definition accepts :: "rx \<Rightarrow> string \<Rightarrow> bool" where
  "accepts r s = nullable (fold after s r)"

text \<open>\<open>re.test(s)\<close>: the expression matches somewhere in the string.\<close>

definition rxTest :: "rx \<Rightarrow> string \<Rightarrow> bool" where
  "rxTest r s = accepts (Cat (Rep AnyChar) (Cat r (Rep AnyChar))) s"

datatype parsed = Parsed rx | Invalid string | Unsupported

datatype position = AtStart | AfterOpen | AfterAtom | AfterQuantifier

fun sequence :: "rx list \<Rightarrow> rx" where
  "sequence [] = Empty"
| "sequence [t] = t"
| "sequence (t # ts) = Cat t (sequence ts)"

fun disjunction :: "rx list \<Rightarrow> rx" where
  "disjunction [] = Never"
| "disjunction [a] = a"
| "disjunction (a # as) = Alt a (disjunction as)"

text \<open>
  A group under construction: its finished alternatives, and the terms of the current
  alternative, last one first.
\<close>

type_synonym frame = "rx list \<times> rx list"

definition closeFrame :: "frame \<Rightarrow> rx" where
  "closeFrame f = disjunction (fst f @ [sequence (rev (snd f))])"

definition quantified :: "char \<Rightarrow> rx \<Rightarrow> rx" where
  "quantified c t =
     (if c = CHR ''*'' then Rep t else if c = CHR ''+'' then Cat t (Rep t) else Alt Empty t)"

fun parseFrom :: "position \<Rightarrow> frame \<Rightarrow> frame list \<Rightarrow> string \<Rightarrow> parsed" where
  "parseFrom p cur stack [] =
     (if stack = [] then Parsed (closeFrame cur) else Invalid ''Unterminated group'')"
| "parseFrom p cur stack (c # cs) =
     (if c = CHR ''('' then parseFrom AfterOpen ([], []) (cur # stack) cs
      else if c = CHR '')'' then
        (case stack of
           [] \<Rightarrow> Invalid ''Unmatched )''
         | outer # rest \<Rightarrow> parseFrom AfterAtom (fst outer, closeFrame cur # snd outer) rest cs)
      else if c = CHR ''|'' then
        parseFrom AtStart (fst cur @ [sequence (rev (snd cur))], []) stack cs
      else if c = CHR ''*'' \<or> c = CHR ''+'' \<or> c = CHR ''?'' then
        (case p of
           AfterAtom \<Rightarrow>
             (case snd cur of
                [] \<Rightarrow> Invalid ''Nothing to repeat''
              | t # ts \<Rightarrow> parseFrom AfterQuantifier (fst cur, quantified c t # ts) stack cs)
         | AfterQuantifier \<Rightarrow> if c = CHR ''?'' then Unsupported else Invalid ''Nothing to repeat''
         | AfterOpen \<Rightarrow> if c = CHR ''?'' then Unsupported else Invalid ''Nothing to repeat''
         | AtStart \<Rightarrow> Invalid ''Nothing to repeat'')
      else if c = CHR ''.'' then parseFrom AfterAtom (fst cur, Dot # snd cur) stack cs
      else if c \<in> set ''[]{}^$'' \<or> c = CHR 0x5C \<or> (128::nat) \<le> of_char c
      then Unsupported
      else parseFrom AfterAtom (fst cur, Lit c # snd cur) stack cs)"

definition parsePattern :: "string \<Rightarrow> parsed" where
  "parsePattern p = parseFrom AtStart ([], []) [] p"

definition regExpFragment :: "string \<Rightarrow> js_error + (string \<Rightarrow> bool)" where
  "regExpFragment p =
     (case parsePattern p of
        Parsed r \<Rightarrow> Inr (rxTest r)
      | Invalid msg \<Rightarrow> Inl (SyntaxError msg)
      | Unsupported \<Rightarrow> Inl (NotModelled ''pattern outside the fragment''))"

text \<open>
  Case-insensitive literal substring matching, for comparison: the term occurs in the
  string, letter case apart.
\<close>

fun startsWith :: "string \<Rightarrow> string \<Rightarrow> bool" where
  "startsWith [] s = True"
| "startsWith (c # cs) [] = False"
| "startsWith (c # cs) (d # ds) = (canonical c = canonical d \<and> startsWith cs ds)"

fun containsLiteral :: "string \<Rightarrow> string \<Rightarrow> bool" where
  "containsLiteral q [] = startsWith q []"
| "containsLiteral q (d # ds) = (startsWith q (d # ds) \<or> containsLiteral q ds)"

section \<open>The data model of a product\<close>

text \<open>
  Modelled from the spec: the schema of models/Product.model.js is not among the sources.
  Per the data model, \<open>images\<close> is an "ordered sequence of {url, publicId}": every
  entry is an object. A document without the field is admitted as well.
\<close>

fun isObject :: "jsval \<Rightarrow> bool" where
  "isObject (JObj d) = True"
| "isObject v = False"

definition imagesWellFormed :: "doc \<Rightarrow> bool" where
  "imagesWellFormed product =
     (case js_get product ''images'' of
        JUndefined \<Rightarrow> True
      | JNull \<Rightarrow> True
      | JArr imgs \<Rightarrow> list_all isObject imgs
      | _ \<Rightarrow> False)"

section \<open>A sample catalogue\<close>

text \<open>
  A media service that holds a list of handles: deleting a handle it does not hold is
  rejected, as it is for an image that was removed before.
\<close>

definition sampleEnv :: "jsval list env" where
  "sampleEnv =
     \<lparr> deleteMultipleImages =
         (\<lambda>ids m. if list_all (\<lambda>i. i \<in> set m) ids
                   then (Inr JUndefined, filter (\<lambda>x. x \<notin> set ids) m)
                   else (Inl (CollaboratorError ''not found''), m)),
       deleteCloudinaryImage =
         (\<lambda>i m. if i \<in> set m then (Inr JUndefined, removeAll i m)
                 else (Inl (CollaboratorError ''not found''), m)),
       uploadProductImages =
         (\<lambda>fs m. (Inr (JArr (map (\<lambda>f. JObj [(''url'', f), (''publicId'', f)]) fs)), m @ fs)),
       uploadSizeChartImage =
         (\<lambda>f m. (Inr (JObj [(''url'', f), (''publicId'', f)]), m @ [f])),
       regExp_i = regExpFragment,
       textSearch = (\<lambda>s d. case js_get d ''name'' of JStr n \<Rightarrow> containsLiteral s n | _ \<Rightarrow> False),
       sortsBefore = (\<lambda>k a b. True),
       newObjectId = (\<lambda>ds. JStr (replicate (Suc (length ds)) CHR ''n'')),
       timestamp = (\<lambda>ds. JNum (int (length ds))),
       generateSku = (\<lambda>d ds. JStr ''SKU''),
       toStringOf = (\<lambda>v. ''[object Object]''),
       coercedPositive = (\<lambda>v. False),
       decodeURIComponent = (\<lambda>s. Inr s) \<rparr>"

definition shirt :: doc where
  "shirt =
     [(''_id'', JStr ''p1''), (''__v'', JNum 0), (''createdAt'', JNum 1), (''updatedAt'', JNum 1),
      (''name'', JStr ''Shirt''), (''brand'', JStr ''Acme''),
      (''description'', JStr ''Blue cotton''), (''sku'', JStr ''S1''),
      (''images'', JArr [JObj [(''url'', JStr ''u1''), (''publicId'', JStr ''img1'')]]),
      (''sizeChart'', JObj [(''imageUrl'', JStr ''u2''), (''imagePublicId'', JStr ''chart1'')]),
      (''isActive'', JBool True), (''averageRating'', JNum 4), (''reviewCount'', JNum 2)]"

definition hat :: doc where
  "hat =
     [(''_id'', JStr ''p2''), (''__v'', JNum 0), (''createdAt'', JNum 2), (''updatedAt'', JNum 2),
      (''name'', JStr ''Hat''), (''brand'', JStr ''Acme''), (''sku'', JStr ''H1''),
      (''isActive'', JBool False), (''averageRating'', JNum 3), (''reviewCount'', JNum 1)]"

definition sampleWorld :: "jsval list world" where
  "sampleWorld =
     \<lparr> products = [shirt, hat], shippingStructures = [],
       media = [JStr ''img1'', JStr ''chart1''], console = [] \<rparr>"

text \<open>The request \<open>GET /api/products\<close> without parameters.\<close>

definition firstPage :: listQuery where
  "firstPage =
     \<lparr> qPage = None, qLimit = None, qSearch = None, qCategory = None, qBrand = None,
       qSortBy = None \<rparr>"



text \<open>The same catalogue after the media service has lost the images.\<close>

definition strippedWorld :: "jsval list world" where
  "strippedWorld = sampleWorld\<lparr>media := []\<rparr>"

section \<open>Objects and the store\<close>

lemma js_get_js_set: "js_get (js_set d k v) k' = (if k' = k then v else js_get d k')"
  by (simp add: js_get_def js_set_def update_conv')

lemma js_get_js_delete:
  "js_get (js_delete d k) k' = (if k' = k then JUndefined else js_get d k')"
  by (simp add: js_get_def js_delete_def delete_conv')

lemma find_replace:
  "find P ds = Some p \<Longrightarrow> P p' \<Longrightarrow> find P (map (\<lambda>d. if P d then p' else d) ds) = Some p'"
  by (induction ds) (auto split: if_splits)

lemma findById_id: "findById pid ds = Some d \<Longrightarrow> js_get d ''_id'' = JStr pid"
  by (auto simp: findById_def find_Some_iff)

lemma findById_save:
  assumes "findById pid (products w) = Some p" and "js_get p' ''_id'' = JStr pid"
  shows "findById pid (products (save p' w)) = Some p'"
proof -
  have "find (\<lambda>d. js_get d ''_id'' = JStr pid)
          (map (\<lambda>d. if js_get d ''_id'' = JStr pid then p' else d) (products w)) = Some p'"
    using assms by (intro find_replace) (auto simp: findById_def)
  then show ?thesis
    using assms(2) by (simp add: findById_def save_def)
qed

section \<open>Soft delete\<close>

lemma publicIdsOf_objects:
  "list_all isObject imgs \<Longrightarrow> \<exists>ids. publicIdsOf imgs = Inr ids \<and> length ids = length imgs"
proof (induction imgs)
  case Nil
  then show ?case by simp
next
  case (Cons img imgs)
  then obtain d where "img = JObj d" by (cases img) auto
  with Cons show ?case by auto
qed

lemma cleanupImages_wellFormed:
  assumes "imagesWellFormed product"
  shows "\<exists>w1. cleanupImages env product w = Inr w1 \<and> products w1 = products w \<and>
           (\<forall>ids err m.
              mapPublicId (js_get product ''images'') = Inr ids \<and> ids \<noteq> [] \<and>
              deleteMultipleImages env ids (media w) = (Inl err, m) \<longrightarrow>
              w1 = w\<lparr>media := m,
                      console := console w @ [(''Error deleting product images:'', err)]\<rparr>)"
proof (cases "js_get product ''images''")
  case (JArr imgs)
  with assms have "list_all isObject imgs" by (simp add: imagesWellFormed_def)
  then obtain ids where ids: "publicIdsOf imgs = Inr ids" "length ids = length imgs"
    using publicIdsOf_objects by blast
  show ?thesis
  proof (cases "imgs = []")
    case True
    with JArr ids show ?thesis by (auto simp: cleanupImages_def)
  next
    case False
    obtain res m where call: "deleteMultipleImages env ids (media w) = (res, m)"
      by (cases "deleteMultipleImages env ids (media w)") auto
    with JArr False ids show ?thesis
      by (cases res) (simp_all add: cleanupImages_def)
  qed
qed (use assms in \<open>simp_all add: imagesWellFormed_def cleanupImages_def\<close>)

lemma cleanupSizeChart_completes:
  "\<exists>w2. cleanupSizeChart env product w1 = Inr w2 \<and> products w2 = products w1 \<and>
         (\<forall>i err m.
            truthy (js_get product ''sizeChart'') \<and>
            js_field (js_get product ''sizeChart'') ''imagePublicId'' = Inr i \<and> truthy i \<and>
            deleteCloudinaryImage env i (media w1) = (Inl err, m) \<longrightarrow>
            w2 = w1\<lparr>media := m,
                     console := console w1 @ [(''Error deleting size chart image:'', err)]\<rparr>)"
proof (cases "truthy (js_get product ''sizeChart'')")
  case False
  then show ?thesis by (simp add: cleanupSizeChart_def)
next
  case True
  then obtain i where i: "js_field (js_get product ''sizeChart'') ''imagePublicId'' = Inr i"
    by (cases "js_get product ''sizeChart''") auto
  show ?thesis
  proof (cases "truthy i")
    case False
    with True i show ?thesis by (simp add: cleanupSizeChart_def)
  next
    case ti: True
    obtain res m where call: "deleteCloudinaryImage env i (media w1) = (res, m)"
      by (cases "deleteCloudinaryImage env i (media w1)") auto
    with True i ti show ?thesis
      by (cases res) (simp_all add: cleanupSizeChart_def)
  qed
qed

text \<open>
  C1. For every product id that resolves to a record (whose images follow the data
  model), delete succeeds. A rejection by the media collaborator, of the deletion of the
  product's images or of the size-chart image, is caught at that call, written to the
  console and goes no further: both cleanup blocks complete, the handler sends 200 with
  \<open>success: true\<close> and never calls \<open>next\<close>, and the stored record is the product with
  \<open>isActive = false\<close>.
\<close>

theorem deleteProduct_succeeds:
  assumes found: "findById pid (products w) = Some product"
    and wf: "imagesWellFormed product"
  shows "\<exists>w1 w2.
           cleanupImages env product w = Inr w1 \<and>
           cleanupSizeChart env product w1 = Inr w2 \<and>
           deleteProduct env pid w =
             (Response 200
                (JObj [(''success'', JBool True),
                       (''message'', JStr ''Product deleted successfully'')]),
              save (js_set product ''isActive'' (JBool False)) w2) \<and>
           findById pid (products (save (js_set product ''isActive'' (JBool False)) w2)) =
             Some (js_set product ''isActive'' (JBool False)) \<and>
           js_get (js_set product ''isActive'' (JBool False)) ''isActive'' = JBool False \<and>
           (\<forall>ids err m.
              mapPublicId (js_get product ''images'') = Inr ids \<and> ids \<noteq> [] \<and>
              deleteMultipleImages env ids (media w) = (Inl err, m) \<longrightarrow>
              w1 = w\<lparr>media := m,
                      console := console w @ [(''Error deleting product images:'', err)]\<rparr>) \<and>
           (\<forall>i err m.
              truthy (js_get product ''sizeChart'') \<and>
              js_field (js_get product ''sizeChart'') ''imagePublicId'' = Inr i \<and> truthy i \<and>
              deleteCloudinaryImage env i (media w1) = (Inl err, m) \<longrightarrow>
              w2 = w1\<lparr>media := m,
                       console := console w1 @ [(''Error deleting size chart image:'', err)]\<rparr>)"
proof -
  let ?p = "js_set product ''isActive'' (JBool False)"
  obtain w1 where w1: "cleanupImages env product w = Inr w1" "products w1 = products w"
    and log1: "\<forall>ids err m.
              mapPublicId (js_get product ''images'') = Inr ids \<and> ids \<noteq> [] \<and>
              deleteMultipleImages env ids (media w) = (Inl err, m) \<longrightarrow>
              w1 = w\<lparr>media := m,
                      console := console w @ [(''Error deleting product images:'', err)]\<rparr>"
    using cleanupImages_wellFormed [OF wf, of env w] by blast
  obtain w2 where w2: "cleanupSizeChart env product w1 = Inr w2" "products w2 = products w1"
    and log2: "\<forall>i err m.
              truthy (js_get product ''sizeChart'') \<and>
              js_field (js_get product ''sizeChart'') ''imagePublicId'' = Inr i \<and> truthy i \<and>
              deleteCloudinaryImage env i (media w1) = (Inl err, m) \<longrightarrow>
              w2 = w1\<lparr>media := m,
                       console := console w1 @ [(''Error deleting size chart image:'', err)]\<rparr>"
    using cleanupSizeChart_completes [of env product w1] by blast
  have id: "js_get ?p ''_id'' = JStr pid"
    using findById_id [OF found] by (simp add: js_get_js_set)
  have "findById pid (products w2) = Some product"
    using found w1(2) w2(2) by simp
  then have stored: "findById pid (products (save ?p w2)) = Some ?p"
    using id by (rule findById_save)
  have run: "deleteProduct env pid w =
             (Response 200
                (JObj [(''success'', JBool True),
                       (''message'', JStr ''Product deleted successfully'')]),
              save ?p w2)"
    using found w1(1) w2(1) by (simp add: deleteProduct_def)
  have flag: "js_get ?p ''isActive'' = JBool False"
    by (simp add: js_get_js_set)
  from w1(1) w2(1) run stored flag log1 log2 show ?thesis by blast
qed

text \<open>
  The sample catalogue once the media service has lost both images: the two deletions
  are rejected, both rejections are on the console, and the delete succeeds.
\<close>

theorem deleteProduct_succeeds_witness:
  "findById ''p1'' (products strippedWorld) = Some shirt \<and> imagesWellFormed shirt \<and>
   fst (deleteProduct sampleEnv ''p1'' strippedWorld) =
     Response 200
       (JObj [(''success'', JBool True), (''message'', JStr ''Product deleted successfully'')]) \<and>
   console (snd (deleteProduct sampleEnv ''p1'' strippedWorld)) =
     [(''Error deleting product images:'', CollaboratorError ''not found''),
      (''Error deleting size chart image:'', CollaboratorError ''not found'')]"
proof -
  have found: "findById ''p1'' (products strippedWorld) = Some shirt"
    by (simp add: findById_def strippedWorld_def sampleWorld_def shirt_def js_get_def)
  have wf: "imagesWellFormed shirt"
    by (simp add: imagesWellFormed_def shirt_def js_get_def)
  obtain w1 w2 where
    run: "deleteProduct sampleEnv ''p1'' strippedWorld =
             (Response 200
                (JObj [(''success'', JBool True),
                       (''message'', JStr ''Product deleted successfully'')]),
              save (js_set shirt ''isActive'' (JBool False)) w2)"
    and log1: "\<forall>ids err m.
              mapPublicId (js_get shirt ''images'') = Inr ids \<and> ids \<noteq> [] \<and>
              deleteMultipleImages sampleEnv ids (media strippedWorld) = (Inl err, m) \<longrightarrow>
              w1 = strippedWorld\<lparr>media := m,
                      console := console strippedWorld @ [(''Error deleting product images:'', err)]\<rparr>"
    and log2: "\<forall>i err m.
              truthy (js_get shirt ''sizeChart'') \<and>
              js_field (js_get shirt ''sizeChart'') ''imagePublicId'' = Inr i \<and> truthy i \<and>
              deleteCloudinaryImage sampleEnv i (media w1) = (Inl err, m) \<longrightarrow>
              w2 = w1\<lparr>media := m,
                       console := console w1 @ [(''Error deleting size chart image:'', err)]\<rparr>"
    using deleteProduct_succeeds [OF found wf, of sampleEnv] by blast
  have "w1 = strippedWorld\<lparr>media := [],
              console := [(''Error deleting product images:'', CollaboratorError ''not found'')]\<rparr>"
    using log1 [rule_format, of "[JStr ''img1'']" "CollaboratorError ''not found''" "[]"]
    by (simp add: shirt_def js_get_def sampleEnv_def strippedWorld_def sampleWorld_def)
  then have "w2 = strippedWorld\<lparr>media := [],
              console := [(''Error deleting product images:'', CollaboratorError ''not found''),
                          (''Error deleting size chart image:'', CollaboratorError ''not found'')]\<rparr>"
    using log2 [rule_format, of "JStr ''chart1''" "CollaboratorError ''not found''" "[]"]
    by (simp add: shirt_def js_get_def sampleEnv_def strippedWorld_def sampleWorld_def)
  with run found wf show ?thesis by (simp add: save_def)
qed

lemma imagesWellFormed_js_set:
  "k \<noteq> ''images'' \<Longrightarrow> imagesWellFormed (js_set product k v) = imagesWellFormed product"
  by (simp add: imagesWellFormed_def js_get_js_set)

lemma js_set_twice: "js_set (js_set d k v) k v' = js_set d k v'"
  by (simp add: js_set_def)

lemma deleteProduct_found:
  assumes found: "findById pid (products w) = Some product"
    and wf: "imagesWellFormed product"
  shows "\<exists>w'. deleteProduct env pid w =
               (Response 200
                  (JObj [(''success'', JBool True),
                         (''message'', JStr ''Product deleted successfully'')]), w') \<and>
              findById pid (products w') = Some (js_set product ''isActive'' (JBool False))"
proof -
  let ?p = "js_set product ''isActive'' (JBool False)"
  obtain w1 where w1: "cleanupImages env product w = Inr w1" "products w1 = products w"
    using cleanupImages_wellFormed [OF wf, of env w] by blast
  obtain w2 where w2: "cleanupSizeChart env product w1 = Inr w2" "products w2 = products w1"
    using cleanupSizeChart_completes [of env product w1] by blast
  have "js_get ?p ''_id'' = JStr pid"
    using findById_id [OF found] by (simp add: js_get_js_set)
  moreover have "findById pid (products w2) = Some product"
    using found w1(2) w2(2) by simp
  ultimately have "findById pid (products (save ?p w2)) = Some ?p"
    by (intro findById_save)
  moreover have "deleteProduct env pid w =
             (Response 200
                (JObj [(''success'', JBool True),
                       (''message'', JStr ''Product deleted successfully'')]),
              save ?p w2)"
    using found w1(1) w2(1) by (simp add: deleteProduct_def)
  ultimately show ?thesis by blast
qed

text \<open>
  C6. Delete is idempotent on \<open>isActive\<close>: for every existing product id, the first
  delete and a second one both send 200 with \<open>success: true\<close>, and after each the
  stored record has \<open>isActive = false\<close>. This holds for every behaviour of the media
  collaborator, so also when the second call finds the images already removed.
\<close>

theorem deleteProduct_twice:
  assumes found: "findById pid (products w) = Some product"
    and wf: "imagesWellFormed product"
  shows "\<exists>w' w''.
           deleteProduct env pid w =
             (Response 200
                (JObj [(''success'', JBool True),
                       (''message'', JStr ''Product deleted successfully'')]), w') \<and>
           findById pid (products w') = Some (js_set product ''isActive'' (JBool False)) \<and>
           deleteProduct env pid w' =
             (Response 200
                (JObj [(''success'', JBool True),
                       (''message'', JStr ''Product deleted successfully'')]), w'') \<and>
           findById pid (products w'') = Some (js_set product ''isActive'' (JBool False)) \<and>
           js_get (js_set product ''isActive'' (JBool False)) ''isActive'' = JBool False"
proof -
  let ?p = "js_set product ''isActive'' (JBool False)"
  let ?ok = "Response 200
                (JObj [(''success'', JBool True),
                       (''message'', JStr ''Product deleted successfully'')])"
  obtain w' where first: "deleteProduct env pid w = (?ok, w')"
    and stored: "findById pid (products w') = Some ?p"
    using deleteProduct_found [OF found wf, of env] by blast
  have "imagesWellFormed ?p"
    using wf by (simp add: imagesWellFormed_js_set)
  with stored obtain w'' where second: "deleteProduct env pid w' = (?ok, w'')"
    and again: "findById pid (products w'') = Some (js_set ?p ''isActive'' (JBool False))"
    using deleteProduct_found [of pid w' ?p env] by blast
  have "js_get ?p ''isActive'' = JBool False"
    by (simp add: js_get_js_set)
  with first stored second again show ?thesis
    by (auto simp: js_set_twice)
qed

text \<open>
  In the sample catalogue the first delete removes the images from the media service;
  the second finds none of them there, and succeeds.
\<close>

theorem deleteProduct_twice_witness:
  "findById ''p1'' (products sampleWorld) = Some shirt \<and> imagesWellFormed shirt \<and>
   (\<exists>w' w''.
      deleteProduct sampleEnv ''p1'' sampleWorld =
        (Response 200
           (JObj [(''success'', JBool True),
                  (''message'', JStr ''Product deleted successfully'')]), w') \<and>
      deleteProduct sampleEnv ''p1'' w' =
        (Response 200
           (JObj [(''success'', JBool True),
                  (''message'', JStr ''Product deleted successfully'')]), w'') \<and>
      findById ''p1'' (products w'') = Some (js_set shirt ''isActive'' (JBool False))) \<and>
   deleteMultipleImages sampleEnv [JStr ''img1'']
     (media (snd (deleteProduct sampleEnv ''p1'' sampleWorld))) =
     (Inl (CollaboratorError ''not found''), [])"
proof -
  have found: "findById ''p1'' (products sampleWorld) = Some shirt"
    by (simp add: findById_def sampleWorld_def shirt_def js_get_def)
  have wf: "imagesWellFormed shirt"
    by (simp add: imagesWellFormed_def shirt_def js_get_def)
  have gone: "media (snd (deleteProduct sampleEnv ''p1'' sampleWorld)) = []"
    by (simp add: deleteProduct_def findById_def sampleWorld_def shirt_def js_get_def
        cleanupImages_def cleanupSizeChart_def sampleEnv_def save_def)
  have "deleteMultipleImages sampleEnv [JStr ''img1''] [] =
          (Inl (CollaboratorError ''not found''), [])"
    by (simp add: sampleEnv_def)
  with gone found wf deleteProduct_twice [OF found wf, of sampleEnv] show ?thesis
    by auto
qed

section \<open>Identifiers that resolve to no record\<close>

text \<open>
  C5. For every id that resolves to no record in the store, each of get-by-id, update,
  delete and duplicate sends the response 404 with \<open>success: false\<close>; none of them hands
  an error on, and the state is left as it was.
\<close>

theorem unknown_id_is_not_found:
  assumes "findById pid (products w) = None"
  shows "getProduct env pid w =
           (Response 404
              (JObj [(''success'', JBool False), (''message'', JStr ''Product not found'')]), w) \<and>
         updateProduct env pid body w =
           (Response 404
              (JObj [(''success'', JBool False), (''message'', JStr ''Product not found'')]), w) \<and>
         deleteProduct env pid w =
           (Response 404
              (JObj [(''success'', JBool False), (''message'', JStr ''Product not found'')]), w) \<and>
         duplicateProduct env pid w =
           (Response 404
              (JObj [(''success'', JBool False), (''message'', JStr ''Product not found'')]), w)"
  using assms
  by (simp add: getProduct_def updateProduct_def deleteProduct_def duplicateProduct_def
      notFound_def)

text \<open>The sample catalogue has no product \<open>p9\<close>.\<close>

theorem unknown_id_is_not_found_witness:
  "findById ''p9'' (products sampleWorld) = None \<and>
   getProduct sampleEnv ''p9'' sampleWorld =
     (Response 404
        (JObj [(''success'', JBool False), (''message'', JStr ''Product not found'')]),
      sampleWorld) \<and>
   updateProduct sampleEnv ''p9'' [(''name'', JStr ''Cap'')] sampleWorld =
     (Response 404
        (JObj [(''success'', JBool False), (''message'', JStr ''Product not found'')]),
      sampleWorld) \<and>
   deleteProduct sampleEnv ''p9'' sampleWorld =
     (Response 404
        (JObj [(''success'', JBool False), (''message'', JStr ''Product not found'')]),
      sampleWorld) \<and>
   duplicateProduct sampleEnv ''p9'' sampleWorld =
     (Response 404
        (JObj [(''success'', JBool False), (''message'', JStr ''Product not found'')]),
      sampleWorld)"
proof -
  have none: "findById ''p9'' (products sampleWorld) = None"
    by (simp add: findById_def sampleWorld_def shirt_def hat_def js_get_def)
  from none unknown_id_is_not_found [OF none] show ?thesis by blast
qed

section \<open>Update\<close>





section \<open>Duplicate\<close>

lemma js_get_duplicateData:
  "js_get (duplicateData env src) k =
     (if k = ''reviewCount'' then JNum 0
      else if k = ''averageRating'' then JNum 0
      else if k = ''sku'' then JNull
      else if k = ''name'' then JStr (js_toString env (js_get src ''name'') @ '' (Copy)'')
      else if k \<in> set immutableFields then JUndefined
      else js_get src k)"
  by (simp add: duplicateData_def js_get_js_set js_get_js_delete immutableFields_def)

lemma js_get_newDocument:
  "js_get (newDocument env ds d) k =
     (if k = ''updatedAt'' then timestamp env ds
      else if k = ''createdAt'' then timestamp env ds
      else if k = ''__v'' then JNum 0
      else if k = ''_id'' then newObjectId env ds
      else if k = ''sku'' \<and> (js_get d ''sku'' = JUndefined \<or> js_get d ''sku'' = JNull)
        then generateSku env d ds
      else js_get d k)"
  by (simp add: newDocument_def assignSku_def js_get_js_set)

text \<open>
  C3. For every existing source product, duplicate creates a record from an object whose
  name is the source's name with \<open>" (Copy)"\<close> appended, whose \<open>sku\<close> is \<open>null\<close> (the
  model generates one on creation), whose \<open>averageRating\<close> and \<open>reviewCount\<close> are 0,
  and which has no \<open>_id\<close>, \<open>__v\<close>, \<open>createdAt\<close> or \<open>updatedAt\<close>: the record gets its
  own. Every other field of the record, \<open>isActive\<close> among them, has the source's value.
  The handler sends 201 with the created record.
\<close>

theorem duplicateProduct_copies:
  assumes found: "findById pid (products w) = Some src"
    and name: "js_get src ''name'' = JStr n"
  shows "\<exists>created.
           duplicateProduct env pid w =
             (Response 201
                (JObj [(''success'', JBool True),
                       (''message'', JStr ''Product duplicated successfully''),
                       (''data'', JObj [(''product'', JObj created)])]),
              w\<lparr>products := products w @ [created]\<rparr>) \<and>
           created = newDocument env (products w) (duplicateData env src) \<and>
           js_get (duplicateData env src) ''name'' = JStr (n @ '' (Copy)'') \<and>
           js_get (duplicateData env src) ''sku'' = JNull \<and>
           js_get (duplicateData env src) ''averageRating'' = JNum 0 \<and>
           js_get (duplicateData env src) ''reviewCount'' = JNum 0 \<and>
           js_get (duplicateData env src) ''_id'' = JUndefined \<and>
           js_get (duplicateData env src) ''__v'' = JUndefined \<and>
           js_get (duplicateData env src) ''createdAt'' = JUndefined \<and>
           js_get (duplicateData env src) ''updatedAt'' = JUndefined \<and>
           js_get created ''name'' = JStr (n @ '' (Copy)'') \<and>
           js_get created ''sku'' = generateSku env (duplicateData env src) (products w) \<and>
           js_get created ''averageRating'' = JNum 0 \<and>
           js_get created ''reviewCount'' = JNum 0 \<and>
           js_get created ''isActive'' = js_get src ''isActive'' \<and>
           js_get created ''_id'' = newObjectId env (products w) \<and>
           js_get created ''createdAt'' = timestamp env (products w) \<and>
           js_get created ''updatedAt'' = timestamp env (products w) \<and>
           (\<forall>k. k \<notin> set [''_id'', ''__v'', ''createdAt'', ''updatedAt'',
                           ''name'', ''sku'', ''averageRating'', ''reviewCount''] \<longrightarrow>
                js_get (duplicateData env src) k = js_get src k \<and>
                js_get created k = js_get src k)"
proof -
  let ?data = "duplicateData env src"
  let ?created = "newDocument env (products w) ?data"
  have run: "duplicateProduct env pid w =
             (Response 201
                (JObj [(''success'', JBool True),
                       (''message'', JStr ''Product duplicated successfully''),
                       (''data'', JObj [(''product'', JObj ?created)])]),
              w\<lparr>products := products w @ [?created]\<rparr>)"
    using found by (simp add: duplicateProduct_def create_def Let_def)
  have data: "js_get ?data ''name'' = JStr (n @ '' (Copy)'')"
    "js_get ?data ''sku'' = JNull"
    "js_get ?data ''averageRating'' = JNum 0"
    "js_get ?data ''reviewCount'' = JNum 0"
    "js_get ?data ''_id'' = JUndefined"
    "js_get ?data ''__v'' = JUndefined"
    "js_get ?data ''createdAt'' = JUndefined"
    "js_get ?data ''updatedAt'' = JUndefined"
    using name by (simp_all add: js_get_duplicateData immutableFields_def)
  have made: "js_get ?created ''name'' = JStr (n @ '' (Copy)'')"
    "js_get ?created ''sku'' = generateSku env ?data (products w)"
    "js_get ?created ''averageRating'' = JNum 0"
    "js_get ?created ''reviewCount'' = JNum 0"
    "js_get ?created ''isActive'' = js_get src ''isActive''"
    "js_get ?created ''_id'' = newObjectId env (products w)"
    "js_get ?created ''createdAt'' = timestamp env (products w)"
    "js_get ?created ''updatedAt'' = timestamp env (products w)"
    using name by (simp_all add: js_get_newDocument js_get_duplicateData immutableFields_def)
  have rest: "\<forall>k. k \<notin> set [''_id'', ''__v'', ''createdAt'', ''updatedAt'',
                           ''name'', ''sku'', ''averageRating'', ''reviewCount''] \<longrightarrow>
                js_get ?data k = js_get src k \<and> js_get ?created k = js_get src k"
    by (simp add: js_get_newDocument js_get_duplicateData immutableFields_def)
  from run data made rest show ?thesis by blast
qed

text \<open>
  The hat of the sample catalogue is inactive; so is its copy, which is named
  \<open>Hat (Copy)\<close>, keeps the brand and has its aggregates zeroed.
\<close>

theorem duplicateProduct_copies_witness:
  "findById ''p2'' (products sampleWorld) = Some hat \<and> js_get hat ''name'' = JStr ''Hat'' \<and>
   (\<exists>created.
      snd (duplicateProduct sampleEnv ''p2'' sampleWorld) =
        sampleWorld\<lparr>products := products sampleWorld @ [created]\<rparr> \<and>
      js_get created ''name'' = JStr ''Hat (Copy)'' \<and>
      js_get created ''averageRating'' = JNum 0 \<and>
      js_get created ''reviewCount'' = JNum 0 \<and>
      js_get created ''isActive'' = JBool False \<and>
      js_get created ''brand'' = JStr ''Acme'')"
proof -
  have found: "findById ''p2'' (products sampleWorld) = Some hat"
    by (simp add: findById_def sampleWorld_def shirt_def hat_def js_get_def)
  have name: "js_get hat ''name'' = JStr ''Hat''"
    by (simp add: hat_def js_get_def)
  have fields: "js_get hat ''isActive'' = JBool False" "js_get hat ''brand'' = JStr ''Acme''"
    by (simp_all add: hat_def js_get_def)
  obtain created where
    run: "duplicateProduct sampleEnv ''p2'' sampleWorld =
             (Response 201
                (JObj [(''success'', JBool True),
                       (''message'', JStr ''Product duplicated successfully''),
                       (''data'', JObj [(''product'', JObj created)])]),
              sampleWorld\<lparr>products := products sampleWorld @ [created]\<rparr>)"
    and made: "js_get created ''name'' = JStr (''Hat'' @ '' (Copy)'')"
      "js_get created ''averageRating'' = JNum 0"
      "js_get created ''reviewCount'' = JNum 0"
      "js_get created ''isActive'' = js_get hat ''isActive''"
    and rest: "\<forall>k. k \<notin> set [''_id'', ''__v'', ''createdAt'', ''updatedAt'',
                           ''name'', ''sku'', ''averageRating'', ''reviewCount''] \<longrightarrow>
                js_get (duplicateData sampleEnv hat) k = js_get hat k \<and>
                js_get created k = js_get hat k"
    using duplicateProduct_copies [OF found name, of sampleEnv] by blast
  have "js_get created ''brand'' = js_get hat ''brand''"
    using rest [rule_format, of "''brand''"] by simp
  with found name fields run made show ?thesis by auto
qed

section \<open>Listing and searching\<close>

lemma set_insertSorted: "set (insertSorted le d ds) = insert d (set ds)"
  by (induction ds) auto

lemma set_sortDocs: "set (sortDocs le ds) = set ds"
  by (induction ds) (simp_all add: sortDocs_def set_insertSorted)

lemma length_insertSorted: "length (insertSorted le d ds) = Suc (length ds)"
  by (induction ds) auto

lemma length_sortDocs: "length (sortDocs le ds) = length ds"
  by (induction ds) (simp_all add: sortDocs_def length_insertSorted)

lemma set_limitDocs: "set (limitDocs n ds) \<subseteq> set ds"
  by (auto simp: limitDocs_def dest: in_set_takeD)

lemma in_matching:
  "d \<in> set (matching env query ds) \<longleftrightarrow> d \<in> set ds \<and> list_all (holds env d) query"
  by (simp add: matching_def)

lemma listFilter_active:
  "listFilter env q = Inr query \<Longrightarrow> FieldEquals ''isActive'' (JBool True) \<in> set query"
  by (auto simp: listFilter_def Let_def split: if_splits sum.splits)

lemma js_get_populate:
  "k \<noteq> ''shippingStructure'' \<Longrightarrow> js_get (populate structures d) k = js_get d k"
  by (simp add: populate_def Let_def js_get_js_set)

lemma in_findPage:
  assumes "findPage env query sortBy limit skip w = Inr found" and "p \<in> set found"
  shows "\<exists>d. d \<in> set (products w) \<and> list_all (holds env d) query \<and>
             p = populate (shippingStructures w) d"
proof -
  from assms obtain d where p: "p = populate (shippingStructures w) d"
    and "d \<in> set (limitDocs limit (drop (nat skip)
                 (sortDocs (sortsBefore env sortBy) (matching env query (products w)))))"
    by (auto simp: findPage_def split: if_splits)
  then have "d \<in> set (drop (nat skip)
                 (sortDocs (sortsBefore env sortBy) (matching env query (products w))))"
    using set_limitDocs by blast
  then have "d \<in> set (sortDocs (sortsBefore env sortBy) (matching env query (products w)))"
    by (rule in_set_dropD)
  then have "d \<in> set (products w) \<and> list_all (holds env d) query"
    by (simp add: set_sortDocs in_matching)
  with p show ?thesis by blast
qed

lemma listed_getAllProducts:
  assumes "p \<in> set (listedProducts (fst (getAllProducts env q w)))"
  shows "\<exists>d. d \<in> set (products w) \<and> js_get d ''isActive'' = JBool True \<and>
             p = JObj (populate (shippingStructures w) d)"
proof -
  from assms obtain query found where
    filter: "listFilter env q = Inr query"
    and page: "findPage env query (orDefault (qSortBy q) ''-createdAt'')
                 (orDefault (qLimit q) 10)
                 ((int (orDefault (qPage q) 1) - 1) * int (orDefault (qLimit q) 10)) w = Inr found"
    and p: "p \<in> JObj ` set found"
    by (auto simp: getAllProducts_def Let_def js_get_def split: sum.splits)
  from p obtain x where x: "x \<in> set found" "p = JObj x" by blast
  from in_findPage [OF page x(1)] obtain d where
    d: "d \<in> set (products w)" "list_all (holds env d) query"
       "x = populate (shippingStructures w) d"
    by blast
  from d(2) listFilter_active [OF filter] have "holds env d (FieldEquals ''isActive'' (JBool True))"
    by (auto simp: list_all_iff simp del: holds.simps)
  with d x show ?thesis by auto
qed

lemma listed_searchProducts:
  assumes "p \<in> set (listedProducts (fst (searchProducts env sq w)))"
  shows "\<exists>d. d \<in> set (products w) \<and> js_get d ''isActive'' = JBool True \<and> p = JObj d"
proof -
  from assms obtain m where
    p: "p \<in> JObj ` set (limitDocs 20
                            (matching env
                               [AnyOf [FieldMatches ''name'' m,
                                       FieldMatches ''brand'' m,
                                       FieldMatches ''description'' m],
                                FieldEquals ''isActive'' (JBool True)]
                               (products w)))"
    by (auto simp: searchProducts_def Let_def js_get_def split: sum.splits if_splits)
  then obtain d where "p = JObj d"
    and "d \<in> set (matching env
                               [AnyOf [FieldMatches ''name'' m,
                                       FieldMatches ''brand'' m,
                                       FieldMatches ''description'' m],
                                FieldEquals ''isActive'' (JBool True)]
                               (products w))"
    using set_limitDocs by blast
  then show ?thesis by (auto simp: in_matching)
qed

text \<open>Evaluating the sample catalogue.\<close>

lemmas sample_defs = sampleEnv_def sampleWorld_def shirt_def hat_def js_get_def js_set_def
lemmas regExp_defs = regExpFragment_def parsePattern_def closeFrame_def rxTest_def accepts_def
  canonical_def lineTerminator_def quantified_def

lemma mathCeilDiv_int:
  "mathCeilDiv count limit = (if limit = 0 then JNull else JNum (- ((- int count) div int limit)))"
proof -
  have "\<lceil>(of_int (int count) :: rat) / of_int (int limit)\<rceil> = - ((- int count) div int limit)"
    by (rule ceiling_divide_eq_div)
  then show ?thesis by (simp add: mathCeilDiv_def)
qed


lemma sample_getAllProducts:
  "getAllProducts sampleEnv firstPage sampleWorld =
     (Response 200
        (JObj [(''success'', JBool True), (''count'', JNum 1), (''total'', JNum 1),
               (''totalPages'', JNum 1), (''currentPage'', JNum 1),
               (''data'', JObj [(''products'', JArr [JObj shirt])])]),
      sampleWorld)"
  by (simp add: getAllProducts_def firstPage_def listFilter_def findPage_def matching_def
      sortDocs_def limitDocs_def populate_def orDefault_def given_def countDocuments_def
      mathCeilDiv_int sample_defs Let_def)

lemma sample_searchProducts:
  "searchProducts sampleEnv (Some ''ACME'') sampleWorld =
     (Response 200
        (JObj [(''success'', JBool True), (''count'', JNum 1),
               (''data'', JObj [(''products'', JArr [JObj shirt])])]),
      sampleWorld)"
  by (simp add: searchProducts_def matching_def limitDocs_def given_def sample_defs regExp_defs)

text \<open>
  C4. For every store state, list and search return only records with
  \<open>isActive = true\<close>: each product of either result is a stored record whose flag is
  \<open>true\<close> (in a list, with its shipping structure resolved), so a record with
  \<open>isActive = false\<close> is in neither. Get-by-id answers with the record of an existing id
  whatever its flag, which the response carries unchanged.
\<close>

theorem only_active_records_listed:
  "(\<forall>p \<in> set (listedProducts (fst (getAllProducts env q w))).
      \<exists>d. d \<in> set (products w) \<and> js_get d ''isActive'' = JBool True \<and>
          p = JObj (populate (shippingStructures w) d) \<and>
          js_get (populate (shippingStructures w) d) ''isActive'' = JBool True) \<and>
   (\<forall>p \<in> set (listedProducts (fst (searchProducts env sq w))).
      \<exists>d. d \<in> set (products w) \<and> js_get d ''isActive'' = JBool True \<and> p = JObj d) \<and>
   (\<forall>d. findById pid (products w) = Some d \<longrightarrow>
      getProduct env pid w =
        (Response 200
           (JObj [(''success'', JBool True),
                  (''data'', JObj [(''product'', JObj (populate (shippingStructures w) d))])]),
         w) \<and>
      js_get (populate (shippingStructures w) d) ''isActive'' = js_get d ''isActive'')"
proof (intro conjI ballI allI impI)
  fix p assume "p \<in> set (listedProducts (fst (getAllProducts env q w)))"
  from listed_getAllProducts [OF this]
  show "\<exists>d. d \<in> set (products w) \<and> js_get d ''isActive'' = JBool True \<and>
          p = JObj (populate (shippingStructures w) d) \<and>
          js_get (populate (shippingStructures w) d) ''isActive'' = JBool True"
    by (auto simp: js_get_populate)
next
  fix p assume "p \<in> set (listedProducts (fst (searchProducts env sq w)))"
  from listed_searchProducts [OF this]
  show "\<exists>d. d \<in> set (products w) \<and> js_get d ''isActive'' = JBool True \<and> p = JObj d" .
next
  fix d assume "findById pid (products w) = Some d"
  then show "getProduct env pid w =
        (Response 200
           (JObj [(''success'', JBool True),
                  (''data'', JObj [(''product'', JObj (populate (shippingStructures w) d))])]),
         w)"
    by (simp add: getProduct_def)
next
  fix d
  show "js_get (populate (shippingStructures w) d) ''isActive'' = js_get d ''isActive''"
    by (simp add: js_get_populate)
qed

text \<open>
  In the sample catalogue the shirt is active and the hat is not: the list and a search
  for the brand both hold the shirt alone, and get-by-id returns the hat.
\<close>

theorem only_active_records_listed_witness:
  "listedProducts (fst (getAllProducts sampleEnv firstPage sampleWorld)) = [JObj shirt] \<and>
   listedProducts (fst (searchProducts sampleEnv (Some ''ACME'') sampleWorld)) = [JObj shirt] \<and>
   findById ''p2'' (products sampleWorld) = Some hat \<and>
   js_get hat ''isActive'' = JBool False \<and>
   getProduct sampleEnv ''p2'' sampleWorld =
     (Response 200
        (JObj [(''success'', JBool True), (''data'', JObj [(''product'', JObj hat)])]),
      sampleWorld) \<and>
   (\<exists>d. d \<in> set (products sampleWorld) \<and> js_get d ''isActive'' = JBool True \<and>
        JObj shirt = JObj (populate (shippingStructures sampleWorld) d))"
proof -
  have listed: "listedProducts (fst (getAllProducts sampleEnv firstPage sampleWorld)) = [JObj shirt]"
    by (simp add: sample_getAllProducts js_get_def)
  have searched:
    "listedProducts (fst (searchProducts sampleEnv (Some ''ACME'') sampleWorld)) = [JObj shirt]"
    by (simp add: sample_searchProducts js_get_def)
  have found: "findById ''p2'' (products sampleWorld) = Some hat"
    by (simp add: findById_def sampleWorld_def shirt_def hat_def js_get_def)
  have inactive: "js_get hat ''isActive'' = JBool False"
    by (simp add: hat_def js_get_def)
  have same: "populate (shippingStructures sampleWorld) hat = hat"
    by (simp add: populate_def hat_def js_get_def)
  note listing = only_active_records_listed
    [of sampleEnv firstPage sampleWorld "Some ''ACME''" "''p2''"]
  from listing listed
  have active: "\<exists>d. d \<in> set (products sampleWorld) \<and> js_get d ''isActive'' = JBool True \<and>
        JObj shirt = JObj (populate (shippingStructures sampleWorld) d)"
    by auto
  from listing found same
  have "getProduct sampleEnv ''p2'' sampleWorld =
     (Response 200
        (JObj [(''success'', JBool True), (''data'', JObj [(''product'', JObj hat)])]),
      sampleWorld)"
    by auto
  with listed searched found inactive active show ?thesis by blast
qed

section \<open>Search\<close>







section \<open>The totals of a list\<close>





section \<open>Status codes\<close>

lemma succeeded_getAllProducts:
  "succeeded (fst (getAllProducts env q w)) \<Longrightarrow> statusOf (fst (getAllProducts env q w)) = Some 200"
  by (auto simp: getAllProducts_def Let_def split: sum.splits)

lemma succeeded_searchProducts:
  "succeeded (fst (searchProducts env q w)) \<Longrightarrow> statusOf (fst (searchProducts env q w)) = Some 200"
  by (auto simp: searchProducts_def Let_def js_get_def split: sum.splits if_splits)

lemma succeeded_getProduct:
  "succeeded (fst (getProduct env pid w)) \<Longrightarrow> statusOf (fst (getProduct env pid w)) = Some 200"
  by (auto simp: getProduct_def notFound_def js_get_def split: option.splits)

lemma succeeded_updateProduct:
  "succeeded (fst (updateProduct env pid body w)) \<Longrightarrow>
   statusOf (fst (updateProduct env pid body w)) = Some 200"
  by (auto simp: updateProduct_def notFound_def js_get_def Let_def split: option.splits)

lemma succeeded_deleteProduct:
  "succeeded (fst (deleteProduct env pid w)) \<Longrightarrow>
   statusOf (fst (deleteProduct env pid w)) = Some 200"
  by (auto simp: deleteProduct_def notFound_def js_get_def split: option.splits sum.splits)

lemma succeeded_uploadImages:
  "succeeded (fst (uploadImages env files w)) \<Longrightarrow>
   statusOf (fst (uploadImages env files w)) = Some 200"
  by (auto simp: uploadImages_def js_get_def split: option.splits sum.splits prod.splits if_splits)

lemma succeeded_deleteImage:
  "succeeded (fst (deleteImage env publicId w)) \<Longrightarrow>
   statusOf (fst (deleteImage env publicId w)) = Some 200"
  by (auto simp: deleteImage_def js_get_def split: sum.splits prod.splits if_splits)

lemma succeeded_uploadSizeChart:
  "succeeded (fst (uploadSizeChart env file w)) \<Longrightarrow>
   statusOf (fst (uploadSizeChart env file w)) = Some 200"
  by (auto simp: uploadSizeChart_def js_get_def split: option.splits sum.splits prod.splits)

lemma status_createProduct: "statusOf (fst (createProduct env body w)) = Some 201"
  by (simp add: createProduct_def create_def Let_def)

lemma status_duplicateProduct:
  "succeeded (fst (duplicateProduct env pid w)) \<Longrightarrow>
   statusOf (fst (duplicateProduct env pid w)) = Some 201"
  by (auto simp: duplicateProduct_def create_def notFound_def js_get_def Let_def
      split: option.splits)

text \<open>
  A bulk image upload and a size-chart upload that succeed: each sends 200, where the
  table of the specification has 201.
\<close>

theorem upload_status_counterexample:
  "succeeded (fst (handle sampleEnv (UploadImages (Some [JStr ''front.png''])) sampleWorld)) \<and>
   statusOf (fst (handle sampleEnv (UploadImages (Some [JStr ''front.png''])) sampleWorld)) =
     Some 200 \<and>
   specSuccessStatus (UploadImages (Some [JStr ''front.png''])) = 201 \<and>
   succeeded (fst (handle sampleEnv (UploadSizeChart (Some (JStr ''chart.png''))) sampleWorld)) \<and>
   statusOf (fst (handle sampleEnv (UploadSizeChart (Some (JStr ''chart.png''))) sampleWorld)) =
     Some 200 \<and>
   specSuccessStatus (UploadSizeChart (Some (JStr ''chart.png''))) = 201"
  by (simp add: uploadImages_def uploadSizeChart_def sampleEnv_def js_get_def)

text \<open>
  C8, amended. Every successful response carries the status of its operation: 200 for
  read (list, search, get-by-id), update, delete (of a product or of an image) and upload
  (bulk image upload and size-chart upload), and 201 for create and duplicate.
\<close>

theorem success_status:
  assumes "succeeded (fst (handle env req w))"
  shows "statusOf (fst (handle env req w)) = Some (successStatus req)"
proof (cases req)
  case (GetAllProducts q)
  with assms show ?thesis by (simp add: succeeded_getAllProducts)
next
  case (SearchProducts q)
  with assms show ?thesis by (simp add: succeeded_searchProducts)
next
  case (GetProduct pid)
  with assms show ?thesis by (simp add: succeeded_getProduct)
next
  case (CreateProduct body)
  then show ?thesis by (simp add: status_createProduct)
next
  case (DuplicateProduct pid)
  with assms show ?thesis by (simp add: status_duplicateProduct)
next
  case (UpdateProduct pid body)
  with assms show ?thesis by (simp add: succeeded_updateProduct)
next
  case (DeleteProduct pid)
  with assms show ?thesis by (simp add: succeeded_deleteProduct)
next
  case (UploadImages files)
  with assms show ?thesis by (simp add: succeeded_uploadImages)
next
  case (DeleteImage publicId)
  with assms show ?thesis by (simp add: succeeded_deleteImage)
next
  case (UploadSizeChart upload)
  with assms show ?thesis by (simp add: succeeded_uploadSizeChart)
qed

text \<open>A create, which sends 201, and a delete, which sends 200.\<close>

theorem success_status_witness:
  "succeeded (fst (handle sampleEnv (CreateProduct [(''name'', JStr ''Cap'')]) sampleWorld)) \<and>
   statusOf (fst (handle sampleEnv (CreateProduct [(''name'', JStr ''Cap'')]) sampleWorld)) =
     Some 201 \<and>
   succeeded (fst (handle sampleEnv (DeleteProduct ''p1'') sampleWorld)) \<and>
   statusOf (fst (handle sampleEnv (DeleteProduct ''p1'') sampleWorld)) = Some 200"
proof -
  have created:
    "succeeded (fst (handle sampleEnv (CreateProduct [(''name'', JStr ''Cap'')]) sampleWorld))"
    by (simp add: createProduct_def create_def Let_def js_get_def)
  have deleted: "succeeded (fst (handle sampleEnv (DeleteProduct ''p1'') sampleWorld))"
    by (simp add: deleteProduct_def findById_def cleanupImages_def cleanupSizeChart_def
        sample_defs)
  from created deleted success_status [OF created] success_status [OF deleted]
  show ?thesis by simp
qed

section \<open>Search terms as regular expressions\<close>

text \<open>
  C10. Search compiles the term \<open>q\<close> into a regular expression, and so does the brand
  filter of list. The term \<open>(\<close> is not a pattern: neither operation answers with 400 or
  with a result, both hand the \<open>SyntaxError\<close> to the generic handler, in every state.
  The term \<open>.\<close> finds the shirt of the sample catalogue although none of its name, brand
  and description contains a full stop, and the brand filter \<open>A.me\<close> finds the brand
  \<open>Acme\<close>: matching is not case-insensitive literal substring matching.
\<close>

theorem search_term_is_a_pattern:
  "searchProducts (env\<lparr>regExp_i := regExpFragment\<rparr>) (Some ''('') w =
     (Next (SyntaxError ''Unterminated group''), w) \<and>
   getAllProducts (env\<lparr>regExp_i := regExpFragment\<rparr>) (firstPage\<lparr>qBrand := Some ''(''\<rparr>) w =
     (Next (SyntaxError ''Unterminated group''), w) \<and>
   listedProducts (fst (searchProducts sampleEnv (Some ''.'') sampleWorld)) = [JObj shirt] \<and>
   \<not> containsLiteral ''.'' ''Shirt'' \<and> \<not> containsLiteral ''.'' ''Acme'' \<and>
   \<not> containsLiteral ''.'' ''Blue cotton'' \<and>
   listedProducts (fst (getAllProducts sampleEnv (firstPage\<lparr>qBrand := Some ''A.me''\<rparr>) sampleWorld)) =
     [JObj shirt] \<and>
   \<not> containsLiteral ''A.me'' ''Acme''"
proof -
  have invalid: "regExpFragment ''('' = Inl (SyntaxError ''Unterminated group'')"
    by (simp add: regExpFragment_def parsePattern_def)
  have search: "searchProducts (env\<lparr>regExp_i := regExpFragment\<rparr>) (Some ''('') w =
     (Next (SyntaxError ''Unterminated group''), w)"
    by (simp add: searchProducts_def given_def invalid)
  have list: "getAllProducts (env\<lparr>regExp_i := regExpFragment\<rparr>) (firstPage\<lparr>qBrand := Some ''(''\<rparr>) w =
     (Next (SyntaxError ''Unterminated group''), w)"
    by (simp add: getAllProducts_def listFilter_def firstPage_def given_def invalid Let_def)
  have dot: "listedProducts (fst (searchProducts sampleEnv (Some ''.'') sampleWorld)) = [JObj shirt]"
    by (simp add: searchProducts_def matching_def limitDocs_def given_def sample_defs regExp_defs)
  have brand:
    "listedProducts (fst (getAllProducts sampleEnv (firstPage\<lparr>qBrand := Some ''A.me''\<rparr>) sampleWorld)) =
     [JObj shirt]"
    by (simp add: getAllProducts_def firstPage_def listFilter_def findPage_def matching_def
      sortDocs_def limitDocs_def populate_def orDefault_def given_def countDocuments_def
      mathCeilDiv_int sample_defs regExp_defs Let_def)
  have literal: "\<not> containsLiteral ''.'' ''Shirt''" "\<not> containsLiteral ''.'' ''Acme''"
    "\<not> containsLiteral ''.'' ''Blue cotton''" "\<not> containsLiteral ''A.me'' ''Acme''"
    by (simp_all add: canonical_def)
  from search list dot brand literal show ?thesis by blast
qed

end
